theory Spec2Isabelle
  imports Main
begin

section \<open>AutoThreads: a shallow embedding of \<open>src/AutoThreads.ts\<close>\<close>

text \<open>
  The service reacts to two kinds of events: a \<open>MESSAGE_CREATE\<close> dispatch, for which it may
  open a thread, and component or modal interactions on the thread's control message.
  Every call to a collaborator (channel cache, classifier, REST client, logger) is
  recorded as an \<open>event\<close>; a program is a pair of the events it issued, in order, and its
  exit: a value, a typed failure or a defect.
\<close>

subsection \<open>String helpers of the host language\<close>

definition startsWith :: "string \<Rightarrow> string \<Rightarrow> bool" where
  \<comment> \<open>\<open>s.startsWith(p)\<close>\<close>
  "startsWith s p = (take (length p) s = p)"

fun includes_str :: "string \<Rightarrow> string \<Rightarrow> bool" where
  \<comment> \<open>\<open>s.includes(k)\<close>: \<open>k\<close> occurs in \<open>s\<close> as a contiguous substring\<close>
  "includes_str [] k = (k = [])"
| "includes_str (c # cs) k = (startsWith (c # cs) k \<or> includes_str cs k)"

fun split_on :: "char \<Rightarrow> string \<Rightarrow> string list" where
  \<comment> \<open>\<open>s.split(c)\<close> for a one-character separator: never empty, \<open>"".split("_")\<close> is \<open>[""]\<close>\<close>
  "split_on c [] = [[]]"
| "split_on c (x # xs) =
     (if x = c then [] # split_on c xs
      else (case split_on c xs of
              [] \<Rightarrow> [[x]]
            | s # ss \<Rightarrow> (x # s) # ss))"

definition index_opt :: "'a list \<Rightarrow> nat \<Rightarrow> 'a option" where
  \<comment> \<open>\<open>xs[i]\<close>: \<open>undefined\<close> (here \<open>None\<close>) out of range\<close>
  "index_opt xs i = (if i < length xs then Some (xs ! i) else None)"

subsection \<open>Data\<close>

record user =
  user_id :: string
  user_username :: string
  user_bot :: "bool option"

record member =
  member_user :: "user option"
  member_nick :: "string option"
  member_permissions :: "nat option"

record message =
  message_id :: string
  message_channel_id :: string
  message_guild_id :: "string option"
  message_type :: nat
  message_author :: user
  message_member :: "member option"
  message_content :: string

record channel =
  channel_id :: string
  channel_topic :: "string option"
  channel_type :: nat
  channel_name :: "string option"

definition DEFAULT :: nat where
  \<comment> \<open>\<open>Discord.MessageType.DEFAULT\<close>\<close>
  "DEFAULT = 0"

definition GUILD_TEXT :: nat where
  \<comment> \<open>\<open>Discord.ChannelType.GUILD_TEXT\<close>\<close>
  "GUILD_TEXT = 0"

record MessageInfo =
  short_title :: string
  has_code_examples :: bool
  has_code_fences :: bool

definition missingCodeFences :: "MessageInfo \<Rightarrow> bool" where
  "missingCodeFences info = (has_code_examples info \<and> \<not> has_code_fences info)"

text \<open>
  Failures are tagged errors. \<open>OtherError t\<close> stands for a failure of a collaborator with
  tag \<open>t\<close>, such as a REST error or a missing channel.
\<close>

datatype error =
    ParseError
  | OpenAIError
  | PermissionsError (action: string) (subject: string)
  | OtherError string

fun tag :: "error \<Rightarrow> string" where
  \<comment> \<open>the \<open>_tag\<close> field of a tagged error\<close>
  "tag ParseError = ''ParseError''"
| "tag OpenAIError = ''OpenAIError''"
| "tag (PermissionsError a s) = ''PermissionsError''"
| "tag (OtherError t) = t"

datatype cause = Fail error | Die

datatype ButtonStyle = PRIMARY | SECONDARY

record button =
  button_custom_id :: string
  button_label :: string
  button_style :: ButtonStyle

record message_payload =
  payload_content :: "string option"
  payload_components :: "button list list"

record thread_params =
  name :: string
  auto_archive_duration :: nat

datatype channel_patch = Rename string | Archive

datatype LogLevel = Debug | Info | Error

text \<open>
  \<open>Sleep d\<close> is the pause that a schedule of interval \<open>d\<close> milliseconds prescribes before
  the next run of a retried effect.
\<close>

datatype event =
    ChannelsGet "string option" "string option"
  | OpenAIFn string
  | Sleep nat
  | StartThreadFromMessage string string thread_params
  | CreateMessage string message_payload
  | ModifyChannel "string option" channel_patch
  | Log LogLevel cause

record text_input =
  input_custom_id :: string
  input_label :: string
  input_max_length :: nat
  input_value :: "string option"

datatype MessageFlag = EPHEMERAL

datatype response =
    MODAL string string "text_input list"
  | DEFERRED_UPDATE_MESSAGE
  | CHANNEL_MESSAGE_WITH_SOURCE MessageFlag string

datatype InteractionType = MESSAGE_COMPONENT | MODAL_SUBMIT

record interaction =
  ix_type :: InteractionType
  ix_guild_id :: "string option"
  ix_channel_id :: "string option"
  ix_member :: "member option"
  ix_custom_id :: string
  ix_modal_values :: "string \<rightharpoonup> string"

text \<open>
  The collaborators answer as functions of the request. The classifier is asked again
  on a retry, so its answer also depends on the number of the attempt, and so does the
  time in milliseconds that the attempt takes.
\<close>

record env =
  env_channels_get :: "string option \<Rightarrow> string option \<Rightarrow> cause + channel"
  env_openai_fn :: "nat \<Rightarrow> string \<Rightarrow> cause + MessageInfo"
  env_openai_ms :: "nat \<Rightarrow> string \<Rightarrow> nat"
  env_startThreadFromMessage :: "string \<Rightarrow> string \<Rightarrow> thread_params \<Rightarrow> cause + channel"
  env_createMessage :: "string \<Rightarrow> message_payload \<Rightarrow> cause + unit"
  env_modifyChannel :: "string option \<Rightarrow> channel_patch \<Rightarrow> cause + unit"

subsection \<open>Effects\<close>

type_synonym 'a effect = "event list \<times> (cause + 'a)"

definition succeed :: "'a \<Rightarrow> 'a effect" where
  "succeed a = ([], Inr a)"

definition fail :: "error \<Rightarrow> 'a effect" where
  "fail e = ([], Inl (Fail e))"

definition die :: "'a effect" where
  \<comment> \<open>an exception thrown by the host language inside an effect\<close>
  "die = ([], Inl Die)"

definition flatMap :: "'a effect \<Rightarrow> ('a \<Rightarrow> 'b effect) \<Rightarrow> 'b effect" where
  "flatMap m f =
     (case m of
        (t, Inl c) \<Rightarrow> (t, Inl c)
      | (t, Inr a) \<Rightarrow> (case f a of (t', r) \<Rightarrow> (t @ t', r)))"

definition map_eff :: "('a \<Rightarrow> 'b) \<Rightarrow> 'a effect \<Rightarrow> 'b effect" where
  "map_eff f m = flatMap m (\<lambda>a. succeed (f a))"

definition as_eff :: "'b \<Rightarrow> 'a effect \<Rightarrow> 'b effect" where
  "as_eff b m = map_eff (\<lambda>_. b) m"

definition tap :: "'a effect \<Rightarrow> ('a \<Rightarrow> 'b effect) \<Rightarrow> 'a effect" where
  "tap m f = flatMap m (\<lambda>a. as_eff a (f a))"

definition when_eff :: "bool \<Rightarrow> 'a effect \<Rightarrow> 'a option effect" where
  "when_eff b m = (if b then map_eff Some m else succeed None)"

definition log :: "LogLevel \<Rightarrow> cause \<Rightarrow> unit effect" where
  "log lvl c = ([Log lvl c], Inr ())"

definition tapErrorCause :: "(cause \<Rightarrow> unit effect) \<Rightarrow> 'a effect \<Rightarrow> 'a effect" where
  "tapErrorCause f m =
     (case m of
        (t, Inl c) \<Rightarrow>
          (case f c of
             (t', Inl c') \<Rightarrow> (t @ t', Inl c')
           | (t', Inr _) \<Rightarrow> (t @ t', Inl c))
      | (t, Inr a) \<Rightarrow> (t, Inr a))"

definition orElseSucceed :: "'a \<Rightarrow> 'a effect \<Rightarrow> 'a effect" where
  \<comment> \<open>recovers from typed failures only; a defect passes through\<close>
  "orElseSucceed a m =
     (case m of
        (t, Inl (Fail e)) \<Rightarrow> (t, Inr a)
      | (t, r) \<Rightarrow> (t, r))"

definition catchTag :: "string \<Rightarrow> (error \<Rightarrow> 'a effect) \<Rightarrow> 'a effect \<Rightarrow> 'a effect" where
  "catchTag tg h m =
     (case m of
        (t, Inl (Fail e)) \<Rightarrow>
          (if tag e = tg then (case h e of (t', r) \<Rightarrow> (t @ t', r)) else (t, Inl (Fail e)))
      | (t, r) \<Rightarrow> (t, r))"

definition catchAllCause :: "(cause \<Rightarrow> 'a effect) \<Rightarrow> 'a effect \<Rightarrow> 'a effect" where
  "catchAllCause h m =
     (case m of
        (t, Inl c) \<Rightarrow> (case h c of (t', r) \<Rightarrow> (t @ t', r))
      | (t, Inr a) \<Rightarrow> (t, Inr a))"

subsection \<open>The retry policy\<close>

text \<open>
  Time is counted in milliseconds; the runs of the retried effect and the pauses between
  them are what takes time. \<open>fixed_step\<close> is the step of \<open>Schedule.fixed\<close>, taken
  when a run has failed at the time \<open>now\<close>. Its state is empty at first, and then holds
  the time of the first failure and the time for which the last run was due. The first
  step asks for the next run one interval later. A later step asks for the next boundary
  of the interval, counted from the first failure, or for the present when the run ended
  more than an interval after it was due. \<open>Schedule.recurs\<close> bounds the number of steps and
  asks for no delay of its own, so the intersection waits as \<open>fixed_step\<close> says. The
  driver of the schedule sleeps until the time asked for, and not at all if that time is
  the present.
\<close>

record schedule =
  interval_ms :: nat
  recurs :: nat

definition retryPolicy :: schedule where
  \<comment> \<open>\<open>Schedule.fixed(Duration.millis(500))\<close> intersected with \<open>Schedule.recurs(2)\<close>\<close>
  "retryPolicy = \<lparr>interval_ms = 500, recurs = 2\<rparr>"

definition fixed_step :: "nat \<Rightarrow> (nat \<times> nat) option \<Rightarrow> nat \<Rightarrow> (nat \<times> nat) option \<times> nat" where
  \<comment> \<open>the new state and the time of the next run\<close>
  "fixed_step interval st now =
     (case st of
        None \<Rightarrow> (Some (now, now + interval), now + interval)
      | Some (startMillis, lastRun) \<Rightarrow>
          (let runningBehind = (lastRun + interval < now);
               boundary = (if interval = 0 then 0
                           else interval - (now - startMillis) mod interval);
               sleepTime = (if boundary = 0 then interval else boundary);
               nextRun = (if runningBehind then now else now + sleepTime)
           in (Some (startMillis, nextRun), nextRun)))"

definition pause :: "nat \<Rightarrow> event list" where
  \<comment> \<open>the driver sleeps only for a positive time\<close>
  "pause millis = (if 0 < millis then [Sleep millis] else [])"

fun retry_loop ::
  "nat \<Rightarrow> nat \<Rightarrow> (error \<Rightarrow> bool) \<Rightarrow> (nat \<Rightarrow> 'a effect) \<Rightarrow> (nat \<Rightarrow> nat) \<Rightarrow> nat
     \<Rightarrow> (nat \<times> nat) option \<Rightarrow> nat \<Rightarrow> 'a effect" where
  \<comment> \<open>\<open>act n\<close> is the \<open>n\<close>-th run, \<open>took n\<close> the time it takes, \<open>now\<close> the time at which
     it starts, \<open>st\<close> the state of the schedule\<close>
  "retry_loop interval 0 whl act took n st now = act n"
| "retry_loop interval (Suc k) whl act took n st now =
     (case act n of
        (t, Inl (Fail e)) \<Rightarrow>
          (if whl e
           then (case fixed_step interval st (now + took n) of
                   (st', nextRun) \<Rightarrow>
                     (case retry_loop interval k whl act took (Suc n) st' nextRun of
                        (t', r) \<Rightarrow> (t @ pause (nextRun - (now + took n)) @ t', r)))
           else (t, Inl (Fail e)))
      | (t, r) \<Rightarrow> (t, r))"

definition retry ::
  "schedule \<Rightarrow> (error \<Rightarrow> bool) \<Rightarrow> (nat \<Rightarrow> 'a effect) \<Rightarrow> (nat \<Rightarrow> nat) \<Rightarrow> 'a effect" where
  \<comment> \<open>\<open>Effect.retry({ schedule, while })\<close>, started at time 0\<close>
  "retry s whl act took = retry_loop (interval_ms s) (recurs s) whl act took 0 None 0"

subsection \<open>Collaborators\<close>

text \<open>
  Modelled from the spec: \<open>Str.truncate\<close> of \<open>bot/utils/String\<close>, a module of this
  repository that is not among the sources. The spec describes a hard cut that is not
  word-boundary-aware: a longer title yields exactly its first \<open>len\<close> characters.
\<close>

definition truncate :: "string \<Rightarrow> nat \<Rightarrow> string" where
  \<comment> \<open>Modelled from the spec: the first \<open>len\<close> characters of \<open>str\<close>\<close>
  "truncate str len = take len str"

text \<open>
  The channel cache, the classifier and the REST client are given by the environment;
  each call is recorded before its answer is returned.
\<close>

definition channels_get :: "env \<Rightarrow> string option \<Rightarrow> string option \<Rightarrow> channel effect" where
  "channels_get env guild_id cid = ([ChannelsGet guild_id cid], env_channels_get env guild_id cid)"

definition openai_fn :: "env \<Rightarrow> nat \<Rightarrow> string \<Rightarrow> MessageInfo effect" where
  "openai_fn env n content = ([OpenAIFn content], env_openai_fn env n content)"

definition startThreadFromMessage ::
  "env \<Rightarrow> string \<Rightarrow> string \<Rightarrow> thread_params \<Rightarrow> channel effect" where
  "startThreadFromMessage env cid mid params =
     ([StartThreadFromMessage cid mid params], env_startThreadFromMessage env cid mid params)"

definition createMessage :: "env \<Rightarrow> string \<Rightarrow> message_payload \<Rightarrow> unit effect" where
  "createMessage env cid payload = ([CreateMessage cid payload], env_createMessage env cid payload)"

definition modifyChannel :: "env \<Rightarrow> string option \<Rightarrow> channel_patch \<Rightarrow> unit effect" where
  "modifyChannel env cid patch = ([ModifyChannel cid patch], env_modifyChannel env cid patch)"

subsection \<open>The message pipeline\<close>

definition EligibleChannel :: "string \<Rightarrow> channel \<Rightarrow> channel effect" where
  \<comment> \<open>lines 69 to 73: the topic is a string that includes the keyword, the type is
     \<open>GUILD_TEXT\<close>\<close>
  "EligibleChannel topicKeyword c =
     (case channel_topic c of
        None \<Rightarrow> fail ParseError
      | Some topic \<Rightarrow>
          (if includes_str topic topicKeyword \<and> channel_type c = GUILD_TEXT
           then succeed c else fail ParseError))"

definition EligibleMessage :: "message \<Rightarrow> message effect" where
  \<comment> \<open>lines 75 to 82: \<open>author.bot\<close> is optional and, when present, must be the literal
     \<open>false\<close>\<close>
  "EligibleMessage m =
     (if message_type m = DEFAULT
         \<and> (user_bot (message_author m) = None \<or> user_bot (message_author m) = Some False)
      then succeed m else fail ParseError)"

definition eligibility :: "string \<Rightarrow> env \<Rightarrow> message \<Rightarrow> (message \<times> channel) effect" where
  \<comment> \<open>\<open>Effect.all({ message, channel })\<close>: in order, stopping at the first failure\<close>
  "eligibility topicKeyword env msg =
     flatMap (EligibleMessage msg) (\<lambda>m.
     flatMap (flatMap (channels_get env (message_guild_id msg) (Some (message_channel_id msg)))
                (EligibleChannel topicKeyword)) (\<lambda>c.
     succeed (m, c)))"

definition displayName :: "message \<Rightarrow> string" where
  \<comment> \<open>\<open>Option.fromNullable(message.member?.nick)\<close>, else \<open>message.author.username\<close>\<close>
  "displayName msg =
     (case Option.bind (message_member msg) member_nick of
        Some nick \<Rightarrow> nick
      | None \<Rightarrow> user_username (message_author msg))"

definition classify :: "env \<Rightarrow> message \<Rightarrow> MessageInfo effect" where
  \<comment> \<open>lines 91 to 111: the effect bound to \<open>info\<close>\<close>
  "classify env msg =
     orElseSucceed
       \<lparr>short_title = displayName msg @ [CHR 0x27] @ ''s thread'',
        has_code_examples = False,
        has_code_fences = False\<rparr>
       (tapErrorCause (log Info)
          (retry retryPolicy (\<lambda>err. tag err = ''OpenAIError'')
             (\<lambda>n. openai_fn env n (message_content msg))
             (\<lambda>n. env_openai_ms env n (message_content msg))))"

definition controls :: "message \<Rightarrow> message_payload" where
  "controls msg =
     \<lparr>payload_content = None,
      payload_components =
        [[\<lparr>button_custom_id = ''edit_'' @ user_id (message_author msg),
           button_label = ''Edit title'',
           button_style = PRIMARY\<rparr>,
          \<lparr>button_custom_id = ''archive_'' @ user_id (message_author msg),
           button_label = ''Archive'',
           button_style = SECONDARY\<rparr>]]\<rparr>"

definition fence :: string where
  \<comment> \<open>three times a backslash and a backtick\<close>
  "fence = [CHR 0x5C, CHR 0x60, CHR 0x5C, CHR 0x60, CHR 0x5C, CHR 0x60]"

definition codeFenceHint :: message_payload where
  "codeFenceHint =
     \<lparr>payload_content = Some
        (''It looks like your code examples might be missing code fences.'' @ [CHR 0x0A, CHR 0x0A]
         @ ''You can wrap your code like this:'' @ [CHR 0x0A, CHR 0x0A]
         @ fence @ ''ts'' @ [CHR 0x0A]
         @ ''const a = 123'' @ [CHR 0x0A]
         @ fence @ [CHR 0x0A]),
      payload_components = []\<rparr>"

definition pipeline :: "string \<Rightarrow> env \<Rightarrow> message \<Rightarrow> unit effect" where
  \<comment> \<open>lines 85 to 151: the handler's body down to \<open>Effect.withSpan\<close>; its value is not
     used afterwards\<close>
  "pipeline topicKeyword env msg =
     flatMap (eligibility topicKeyword env msg) (\<lambda>(m, c).
     flatMap (classify env msg) (\<lambda>info.
     flatMap (startThreadFromMessage env (channel_id c) (message_id msg)
                \<lparr>name = truncate (short_title info) 100, auto_archive_duration = 1440\<rparr>) (\<lambda>thread.
     flatMap (createMessage env (channel_id thread) (controls msg)) (\<lambda>_.
     flatMap (when_eff (missingCodeFences info)
                (createMessage env (channel_id thread) codeFenceHint)) (\<lambda>_.
     succeed ())))))"

definition handleMessages :: "string \<Rightarrow> env \<Rightarrow> message \<Rightarrow> unit effect" where
  \<comment> \<open>lines 152 to 156: \<open>catchTags\<close> for \<open>ParseError\<close>, then \<open>catchAllCause\<close>\<close>
  "handleMessages topicKeyword env msg =
     catchAllCause (log Error)
       (catchTag ''ParseError'' (\<lambda>e. log Debug (Fail e))
          (pipeline topicKeyword env msg))"

fun handleDispatch :: "('e \<Rightarrow> unit effect) \<Rightarrow> 'e list \<Rightarrow> unit effect" where
  \<comment> \<open>the gateway runs the handler once per event, in order of arrival; a handler that
     fails ends the subscription\<close>
  "handleDispatch h [] = succeed ()"
| "handleDispatch h (ev # evs) = flatMap (h ev) (\<lambda>_. handleDispatch h evs)"

subsection \<open>Interactions\<close>

definition MANAGE_CHANNELS :: nat where
  \<comment> \<open>\<open>Discord.PermissionFlag.MANAGE_CHANNELS\<close>, bit 4 of the permission set\<close>
  "MANAGE_CHANNELS = 2 ^ 4"

definition has :: "nat \<Rightarrow> nat \<Rightarrow> bool" where
  \<comment> \<open>\<open>Perms.has(flag)(bits)\<close>: every bit of \<open>flag\<close> is set in \<open>bits\<close>\<close>
  "has flag bits = (and bits flag = flag)"

definition hasManage :: "nat \<Rightarrow> bool" where
  "hasManage = has MANAGE_CHANNELS"

definition withEditPermissions :: "interaction \<Rightarrow> 'a effect \<Rightarrow> 'a effect" where
  \<comment> \<open>lines 162 to 175. \<open>||\<close> evaluates its right operand only when the ids differ; there
     \<open>ix.member!.permissions!\<close> throws when the member or its permissions are missing\<close>
  "withEditPermissions ix self =
     (let authorId = index_opt (split_on (CHR ''_'') (ix_custom_id ix)) 1;
          userId = map_option user_id (Option.bind (ix_member ix) member_user)
      in if authorId = userId then self
         else (case Option.bind (ix_member ix) member_permissions of
                 None \<Rightarrow> die
               | Some permissions \<Rightarrow>
                   (if hasManage permissions then self
                    else fail (PermissionsError ''edit'' ''thread''))))"

definition edit :: "env \<Rightarrow> interaction \<Rightarrow> response effect" where
  "edit env ix =
     withEditPermissions ix
       (map_eff (\<lambda>c. MODAL ''edit'' ''Edit title''
                   [\<lparr>input_custom_id = ''title'',
                     input_label = ''New title'',
                     input_max_length = 100,
                     input_value = channel_name c\<rparr>])
          (channels_get env (ix_guild_id ix) (ix_channel_id ix)))"

definition modalValue :: "interaction \<Rightarrow> string \<Rightarrow> string effect" where
  "modalValue ix k =
     (case ix_modal_values ix k of
        None \<Rightarrow> fail (OtherError ''ModalValueNotFound'')
      | Some v \<Rightarrow> succeed v)"

definition editSubmit :: "env \<Rightarrow> interaction \<Rightarrow> response effect" where
  "editSubmit env ix =
     as_eff DEFERRED_UPDATE_MESSAGE
       (tap (modalValue ix ''title'')
          (\<lambda>title. modifyChannel env (ix_channel_id ix) (Rename title)))"

definition archive :: "env \<Rightarrow> interaction \<Rightarrow> response effect" where
  "archive env ix =
     withEditPermissions ix
       (as_eff DEFERRED_UPDATE_MESSAGE
          (modifyChannel env (ix_channel_id ix) Archive))"

definition dispatch :: "env \<Rightarrow> interaction \<Rightarrow> response effect" where
  \<comment> \<open>the handlers registered with \<open>Ix.builder\<close>, tried in the order they were added\<close>
  "dispatch env ix =
     (if ix_type ix = MESSAGE_COMPONENT \<and> startsWith (ix_custom_id ix) ''archive_''
        then archive env ix
      else if ix_type ix = MESSAGE_COMPONENT \<and> startsWith (ix_custom_id ix) ''edit_''
        then edit env ix
      else if ix_type ix = MODAL_SUBMIT \<and> ix_custom_id ix = ''edit''
        then editSubmit env ix
      else fail (OtherError ''DefinitionNotFound''))"

definition permissionDenied :: "error \<Rightarrow> response" where
  "permissionDenied e =
     CHANNEL_MESSAGE_WITH_SOURCE EPHEMERAL
       (''You don'' @ [CHR 0x27] @ ''t have permission to '' @ action e
        @ '' this '' @ subject e @ ''.'')"

definition ix :: "env \<Rightarrow> interaction \<Rightarrow> response option effect" where
  \<comment> \<open>\<open>catchTagRespond\<close> answers a \<open>PermissionsError\<close>; every other cause is logged and the
     interaction gets no response\<close>
  "ix env i =
     catchAllCause (\<lambda>c. as_eff None (log Error c))
       (map_eff Some
          (catchTag ''PermissionsError'' (\<lambda>e. succeed (permissionDenied e))
             (dispatch env i)))"

subsection \<open>Reading a run\<close>

text \<open>
  The requests of one kind among the events of a run, and the failures of the classifier
  that the retry policy's \<open>while\<close> predicate accepts.
\<close>

fun is_thread_request :: "event \<Rightarrow> bool" where
  "is_thread_request (StartThreadFromMessage _ _ _) = True"
| "is_thread_request _ = False"

definition thread_requests :: "event list \<Rightarrow> event list" where
  "thread_requests t = filter is_thread_request t"

fun is_message_request :: "event \<Rightarrow> bool" where
  "is_message_request (CreateMessage _ _) = True"
| "is_message_request _ = False"

definition message_requests :: "event list \<Rightarrow> event list" where
  "message_requests t = filter is_message_request t"

fun is_hint_request :: "event \<Rightarrow> bool" where
  "is_hint_request (CreateMessage _ payload) = (payload = codeFenceHint)"
| "is_hint_request _ = False"

definition hint_requests :: "event list \<Rightarrow> event list" where
  "hint_requests t = filter is_hint_request t"

fun is_classifier_call :: "event \<Rightarrow> bool" where
  "is_classifier_call (OpenAIFn _) = True"
| "is_classifier_call _ = False"

definition classifier_calls :: "event list \<Rightarrow> event list" where
  "classifier_calls t = filter is_classifier_call t"

fun is_pause :: "event \<Rightarrow> bool" where
  "is_pause (Sleep _) = True"
| "is_pause _ = False"

definition pauses :: "event list \<Rightarrow> event list" where
  "pauses t = filter is_pause t"

definition retryable :: "cause + 'a \<Rightarrow> bool" where
  "retryable r = (case r of Inl (Fail e) \<Rightarrow> tag e = ''OpenAIError'' | _ \<Rightarrow> False)"

definition fallback :: "message \<Rightarrow> MessageInfo" where
  \<comment> \<open>the value that \<open>classify\<close> passes to \<open>orElseSucceed\<close>\<close>
  "fallback msg =
     \<lparr>short_title = displayName msg @ [CHR 0x27] @ ''s thread'',
      has_code_examples = False,
      has_code_fences = False\<rparr>"

text \<open>
  The events of the pipeline after the classification: the thread request, then on
  success the control message, then on success the hint if the flags ask for it.
\<close>

definition posting :: "env \<Rightarrow> message \<Rightarrow> channel \<Rightarrow> MessageInfo \<Rightarrow> event list" where
  "posting env msg c info =
     StartThreadFromMessage (channel_id c) (message_id msg)
       \<lparr>name = truncate (short_title info) 100, auto_archive_duration = 1440\<rparr> #
     (case env_startThreadFromMessage env (channel_id c) (message_id msg)
             \<lparr>name = truncate (short_title info) 100, auto_archive_duration = 1440\<rparr> of
        Inl _ \<Rightarrow> []
      | Inr thread \<Rightarrow>
          CreateMessage (channel_id thread) (controls msg) #
          (case env_createMessage env (channel_id thread) (controls msg) of
             Inl _ \<Rightarrow> []
           | Inr _ \<Rightarrow>
               (if has_code_examples info \<and> \<not> has_code_fences info
                then [CreateMessage (channel_id thread) codeFenceHint] else [])))"

definition substring_after_first :: "char \<Rightarrow> string \<Rightarrow> string" where
  \<comment> \<open>everything after the first separator, to be compared with \<open>split\<close>\<close>
  "substring_after_first c s = tl (dropWhile (\<lambda>x. x \<noteq> c) s)"

subsection \<open>Example data\<close>

definition example_channel :: channel where
  "example_channel =
     \<lparr>channel_id = ''c1'', channel_topic = Some ''help [threads]'',
      channel_type = 0, channel_name = Some ''help''\<rparr>"

definition example_thread :: channel where
  "example_thread =
     \<lparr>channel_id = ''t1'', channel_topic = None, channel_type = 11, channel_name = Some ''q''\<rparr>"

definition example_env :: "(nat \<Rightarrow> cause + MessageInfo) \<Rightarrow> env" where
  "example_env classifier =
     \<lparr>env_channels_get = (\<lambda>g c. Inr example_channel),
      env_openai_fn = (\<lambda>n content. classifier n),
      env_openai_ms = (\<lambda>n content. 0),
      env_startThreadFromMessage = (\<lambda>c m p. Inr example_thread),
      env_createMessage = (\<lambda>c p. Inr ()),
      env_modifyChannel = (\<lambda>c p. Inr ())\<rparr>"

definition example_user :: user where
  "example_user = \<lparr>user_id = ''42'', user_username = ''bob'', user_bot = None\<rparr>"

definition example_message :: message where
  "example_message =
     \<lparr>message_id = ''m1'', message_channel_id = ''c1'', message_guild_id = Some ''g'',
      message_type = 0, message_author = example_user, message_member = None,
      message_content = ''how do I pipe?''\<rparr>"

definition example_bot_message :: message where
  "example_bot_message = example_message\<lparr>message_author := example_user\<lparr>user_bot := Some True\<rparr>\<rparr>"

definition example_member :: member where
  "example_member =
     \<lparr>member_user = Some example_user, member_nick = Some ''Bobby'', member_permissions = Some 0\<rparr>"

definition example_info :: MessageInfo where
  "example_info =
     \<lparr>short_title = ''Piping functions'', has_code_examples = True, has_code_fences = False\<rparr>"

definition example_long_title :: MessageInfo where
  "example_long_title =
     \<lparr>short_title = replicate 150 (CHR ''x''), has_code_examples = False, has_code_fences = False\<rparr>"

definition example_env_down :: env where
  "example_env_down = example_env (\<lambda>n. Inl (Fail OpenAIError))"

definition example_stranger :: member where
  "example_stranger =
     \<lparr>member_user = Some \<lparr>user_id = ''7'', user_username = ''eve'', user_bot = None\<rparr>,
      member_nick = None, member_permissions = Some 0\<rparr>"

definition example_moderator :: member where
  "example_moderator =
     \<lparr>member_user = Some \<lparr>user_id = ''8'', user_username = ''mod'', user_bot = None\<rparr>,
      member_nick = None, member_permissions = Some 16\<rparr>"

definition example_click :: "string \<Rightarrow> member \<Rightarrow> interaction" where
  "example_click custom_id mem =
     \<lparr>ix_type = MESSAGE_COMPONENT, ix_guild_id = Some ''g'', ix_channel_id = Some ''t1'',
      ix_member = Some mem, ix_custom_id = custom_id, ix_modal_values = Map.empty\<rparr>"

definition example_submit :: "string \<Rightarrow> interaction" where
  "example_submit title =
     \<lparr>ix_type = MODAL_SUBMIT, ix_guild_id = Some ''g'', ix_channel_id = Some ''t1'',
      ix_member = None, ix_custom_id = ''edit'', ix_modal_values = [''title'' \<mapsto> title]\<rparr>"

definition example_modal :: response where
  "example_modal =
     MODAL ''edit'' ''Edit title''
       [\<lparr>input_custom_id = ''title'', input_label = ''New title'',
         input_max_length = 100, input_value = Some ''help''\<rparr>]"

definition example_env_slow :: env where
  \<comment> \<open>every call of the classifier takes 300 ms and fails\<close>
  "example_env_slow = example_env_down\<lparr>env_openai_ms := (\<lambda>n content. 300)\<rparr>"

definition example_env_overrun :: env where
  \<comment> \<open>every call of the classifier takes 700 ms and fails\<close>
  "example_env_overrun = example_env_down\<lparr>env_openai_ms := (\<lambda>n content. 700)\<rparr>"

definition example_env_rest_down :: env where
  "example_env_rest_down =
     example_env_down\<lparr>env_startThreadFromMessage :=
                        (\<lambda>c m p. Inl (Fail (OtherError ''DiscordRESTError'')))\<rparr>"

section \<open>Properties\<close>

lemmas example_defs =
  example_channel_def example_thread_def example_env_def example_user_def example_message_def
  example_bot_message_def example_member_def example_info_def example_long_title_def
  example_env_down_def example_stranger_def example_moderator_def example_click_def
  example_submit_def example_modal_def example_env_rest_down_def example_env_slow_def
  example_env_overrun_def

lemmas program_defs =
  handleMessages_def pipeline_def eligibility_def EligibleMessage_def EligibleChannel_def
  classify_def retry_def retryPolicy_def fixed_step_def pause_def displayName_def controls_def
  channels_get_def openai_fn_def startThreadFromMessage_def createMessage_def modifyChannel_def
  flatMap_def map_eff_def as_eff_def tap_def when_eff_def succeed_def fail_def die_def log_def
  tapErrorCause_def orElseSucceed_def catchTag_def catchAllCause_def
  missingCodeFences_def truncate_def DEFAULT_def GUILD_TEXT_def startsWith_def
  thread_requests_def message_requests_def hint_requests_def classifier_calls_def pauses_def

lemmas interaction_defs =
  ix_def dispatch_def archive_def edit_def editSubmit_def modalValue_def permissionDenied_def
  withEditPermissions_def hasManage_def has_def MANAGE_CHANNELS_def index_opt_def Let_def

subsection \<open>Effects and strings\<close>

lemma flatMap_Inl: "snd m = Inl c \<Longrightarrow> flatMap m f = (fst m, Inl c)"
  by (cases m) (simp add: flatMap_def)

lemma flatMap_Inr: "snd m = Inr a \<Longrightarrow> flatMap m f = (fst m @ fst (f a), snd (f a))"
  by (cases m) (simp add: flatMap_def split: prod.splits)

lemma includes_str_iff: "includes_str s k \<longleftrightarrow> (\<exists>a b. s = a @ k @ b)"
proof (induction s)
  case Nil
  then show ?case by auto
next
  case (Cons c cs)
  have "startsWith (c # cs) k \<longleftrightarrow> (\<exists>b. c # cs = k @ b)"
    unfolding startsWith_def
    by (metis append_eq_conv_conj append_take_drop_id)
  moreover have "(\<exists>a b. c # cs = a @ k @ b) \<longleftrightarrow> (\<exists>b. c # cs = k @ b) \<or> (\<exists>a b. cs = a @ k @ b)"
  proof
    assume "\<exists>a b. c # cs = a @ k @ b"
    then obtain a b where ab: "c # cs = a @ k @ b" by blast
    show "(\<exists>b. c # cs = k @ b) \<or> (\<exists>a b. cs = a @ k @ b)"
    proof (cases a)
      case Nil
      with ab show ?thesis by auto
    next
      case (Cons x a')
      with ab have "cs = a' @ k @ b" by simp
      then show ?thesis by blast
    qed
  next
    assume "(\<exists>b. c # cs = k @ b) \<or> (\<exists>a b. cs = a @ k @ b)"
    then show "\<exists>a b. c # cs = a @ k @ b"
    proof
      assume "\<exists>b. c # cs = k @ b"
      then obtain b where "c # cs = [] @ k @ b" by auto
      then show ?thesis by blast
    next
      assume "\<exists>a b. cs = a @ k @ b"
      then obtain a b where "cs = a @ k @ b" by blast
      then have "c # cs = (c # a) @ k @ b" by simp
      then show ?thesis by blast
    qed
  qed
  ultimately show ?case using Cons.IH by simp
qed

lemma eligibility_trace:
  "fst (eligibility kw env msg) =
     (if message_type msg = DEFAULT \<and> user_bot (message_author msg) \<noteq> Some True
      then [ChannelsGet (message_guild_id msg) (Some (message_channel_id msg))] else [])"
  by (auto simp: eligibility_def EligibleMessage_def EligibleChannel_def channels_get_def
      flatMap_def succeed_def fail_def split: sum.splits option.splits prod.splits)

lemma eligibility_Inr:
  "snd (eligibility kw env msg) = Inr (m, c) \<longleftrightarrow>
     m = msg \<and> message_type msg = DEFAULT \<and> user_bot (message_author msg) \<noteq> Some True
     \<and> env_channels_get env (message_guild_id msg) (Some (message_channel_id msg)) = Inr c
     \<and> channel_type c = GUILD_TEXT
     \<and> (\<exists>topic. channel_topic c = Some topic \<and> includes_str topic kw)"
  by (auto simp: eligibility_def EligibleMessage_def EligibleChannel_def channels_get_def
      flatMap_def succeed_def fail_def split: sum.splits option.splits prod.splits)

lemma handleMessages_trace:
  "fst (handleMessages kw env msg) =
     fst (pipeline kw env msg) @
       (case snd (pipeline kw env msg) of
          Inl (Fail e) \<Rightarrow> [Log (if tag e = ''ParseError'' then Debug else Error) (Fail e)]
        | Inl Die \<Rightarrow> [Log Error Die]
        | Inr _ \<Rightarrow> [])"
  by (cases "pipeline kw env msg")
     (auto simp: handleMessages_def catchAllCause_def catchTag_def log_def
      split: sum.splits cause.splits prod.splits)

lemma handleMessages_result: "snd (handleMessages kw env msg) = Inr ()"
  by (cases "pipeline kw env msg")
     (auto simp: handleMessages_def catchAllCause_def catchTag_def log_def
      split: sum.splits cause.splits prod.splits)

subsection \<open>The classifier call\<close>

lemma retry_policy_run:
  "retry retryPolicy (\<lambda>err. tag err = ''OpenAIError'') (\<lambda>n. openai_fn env n c)
     (\<lambda>n. env_openai_ms env n c) =
     (OpenAIFn c #
        (if retryable (env_openai_fn env 0 c)
         then Sleep 500 # OpenAIFn c #
                (if retryable (env_openai_fn env 1 c)
                 then (if 500 < env_openai_ms env 1 c then []
                       else [Sleep (500 - env_openai_ms env 1 c mod 500)]) @ [OpenAIFn c]
                 else [])
         else []),
      if retryable (env_openai_fn env 0 c)
      then (if retryable (env_openai_fn env 1 c) then env_openai_fn env 2 c else env_openai_fn env 1 c)
      else env_openai_fn env 0 c)"
proof -
  have boundary: "0 < 500 - d mod 500" for d :: nat
    by simp
  show ?thesis
    using boundary
    by (simp add: retry_def retryPolicy_def openai_fn_def retryable_def numeral_2_eq_2
        fixed_step_def pause_def Let_def split: sum.splits cause.splits)
qed

lemma classify_run:
  "classify env msg =
     (let c = message_content msg;
          r = (\<lambda>n. env_openai_fn env n c);
          took = env_openai_ms env 1 c;
          outcome = (if retryable (r 0) then (if retryable (r 1) then r 2 else r 1) else r 0)
      in (OpenAIFn c #
            (if retryable (r 0)
             then Sleep 500 # OpenAIFn c #
                    (if retryable (r 1)
                     then (if 500 < took then [] else [Sleep (500 - took mod 500)]) @ [OpenAIFn c]
                     else [])
             else [])
          @ (case outcome of Inl cause \<Rightarrow> [Log Info cause] | Inr _ \<Rightarrow> []),
          case outcome of Inl (Fail e) \<Rightarrow> Inr (fallback msg) | other \<Rightarrow> other))"
  unfolding classify_def retry_policy_run
  by (simp add: Let_def orElseSucceed_def tapErrorCause_def log_def fallback_def
      split: sum.splits cause.splits)

subsection \<open>The pipeline\<close>

lemma pipeline_ineligible:
  "snd (eligibility kw env msg) = Inl x \<Longrightarrow>
     pipeline kw env msg = (fst (eligibility kw env msg), Inl x)"
  by (simp add: pipeline_def flatMap_Inl)

lemma pipeline_unclassified:
  "snd (eligibility kw env msg) = Inr (m, c) \<Longrightarrow> snd (classify env msg) = Inl x \<Longrightarrow>
     pipeline kw env msg = (fst (eligibility kw env msg) @ fst (classify env msg), Inl x)"
  by (simp add: pipeline_def flatMap_Inr flatMap_Inl)

lemma pipeline_eligible:
  "snd (eligibility kw env msg) = Inr (m, c) \<Longrightarrow> snd (classify env msg) = Inr info \<Longrightarrow>
     fst (pipeline kw env msg) =
       fst (eligibility kw env msg) @ fst (classify env msg) @ posting env msg c info"
  by (simp add: pipeline_def flatMap_Inr posting_def)
     (auto simp: flatMap_def startThreadFromMessage_def createMessage_def when_eff_def
        map_eff_def succeed_def missingCodeFences_def split: sum.splits)

lemma thread_requests_append [simp]:
  "thread_requests (xs @ ys) = thread_requests xs @ thread_requests ys"
  by (simp add: thread_requests_def)

lemma thread_requests_eligibility [simp]: "thread_requests (fst (eligibility kw env msg)) = []"
  by (simp add: eligibility_trace thread_requests_def)

lemma thread_requests_classify [simp]: "thread_requests (fst (classify env msg)) = []"
  by (simp add: classify_run Let_def thread_requests_def split: sum.splits)

lemma thread_requests_posting [simp]:
  "thread_requests (posting env msg c info) =
     [StartThreadFromMessage (channel_id c) (message_id msg)
        \<lparr>name = truncate (short_title info) 100, auto_archive_duration = 1440\<rparr>]"
  by (simp add: posting_def thread_requests_def split: sum.splits)

lemma thread_requests_handleMessages:
  "thread_requests (fst (handleMessages kw env msg)) = thread_requests (fst (pipeline kw env msg))"
  by (simp add: handleMessages_trace thread_requests_def split: sum.splits cause.splits)

lemma message_requests_append [simp]:
  "message_requests (xs @ ys) = message_requests xs @ message_requests ys"
  by (simp add: message_requests_def)

lemma message_requests_eligibility [simp]: "message_requests (fst (eligibility kw env msg)) = []"
  by (simp add: eligibility_trace message_requests_def)

lemma message_requests_classify [simp]: "message_requests (fst (classify env msg)) = []"
  by (simp add: classify_run Let_def message_requests_def split: sum.splits)

lemma message_requests_handleMessages:
  "message_requests (fst (handleMessages kw env msg)) = message_requests (fst (pipeline kw env msg))"
  by (simp add: handleMessages_trace message_requests_def split: sum.splits cause.splits)

lemma message_requests_posting:
  "message_requests (posting env msg c info) =
     (case env_startThreadFromMessage env (channel_id c) (message_id msg)
             \<lparr>name = truncate (short_title info) 100, auto_archive_duration = 1440\<rparr> of
        Inl _ \<Rightarrow> []
      | Inr thread \<Rightarrow>
          CreateMessage (channel_id thread) (controls msg) #
          (case env_createMessage env (channel_id thread) (controls msg) of
             Inl _ \<Rightarrow> []
           | Inr _ \<Rightarrow>
               (if has_code_examples info \<and> \<not> has_code_fences info
                then [CreateMessage (channel_id thread) codeFenceHint] else [])))"
  by (simp add: posting_def message_requests_def split: sum.splits)

lemma controls_not_hint: "controls msg \<noteq> codeFenceHint" "codeFenceHint \<noteq> controls msg"
  by (simp_all add: controls_def codeFenceHint_def)

lemma retry_fails_iff:
  "snd (retry retryPolicy (\<lambda>err. tag err = ''OpenAIError'') (\<lambda>n. openai_fn env n c)
          (\<lambda>n. env_openai_ms env n c)) = Inl (Fail e)
   \<longleftrightarrow> (env_openai_fn env 0 c = Inl (Fail e) \<and> tag e \<noteq> ''OpenAIError'')
     \<or> (retryable (env_openai_fn env 0 c)
         \<and> env_openai_fn env 1 c = Inl (Fail e) \<and> tag e \<noteq> ''OpenAIError'')
     \<or> (retryable (env_openai_fn env 0 c) \<and> retryable (env_openai_fn env 1 c)
         \<and> env_openai_fn env 2 c = Inl (Fail e))"
  unfolding retry_policy_run by (auto simp: retryable_def)

lemma classify_fallback:
  "snd (retry retryPolicy (\<lambda>err. tag err = ''OpenAIError'')
          (\<lambda>n. openai_fn env n (message_content msg))
          (\<lambda>n. env_openai_ms env n (message_content msg))) = Inl (Fail e)
   \<Longrightarrow> snd (classify env msg) = Inr (fallback msg)"
  by (cases "retry retryPolicy (\<lambda>err. tag err = ''OpenAIError'')
          (\<lambda>n. openai_fn env n (message_content msg))
          (\<lambda>n. env_openai_ms env n (message_content msg))")
     (simp add: classify_def orElseSucceed_def tapErrorCause_def log_def fallback_def)

lemma hint_requests_message_requests: "hint_requests t = hint_requests (message_requests t)"
proof -
  have "is_hint_request e \<and> is_message_request e \<longleftrightarrow> is_hint_request e" for e
    by (cases e) simp_all
  then show ?thesis
    by (simp add: hint_requests_def message_requests_def conj_commute)
qed

lemma handleDispatch_run:
  assumes "\<And>ev. snd (h ev) = Inr ()"
  shows "handleDispatch h evs = (concat (map (\<lambda>ev. fst (h ev)) evs), Inr ())"
proof (induction evs)
  case Nil
  show ?case by (simp add: succeed_def)
next
  case (Cons ev evs)
  show ?case
    using assms [of ev] Cons.IH by (simp add: flatMap_Inr)
qed

subsection \<open>Eligibility\<close>

text \<open>
  Claim C1. A thread is requested for a message only when the message has type
  \<open>DEFAULT\<close>, its author is not a bot, and the channel it resolves to has type
  \<open>GUILD_TEXT\<close> and a topic that contains the configured keyword as a substring. In
  particular no thread is requested for a message of a bot, whatever the channel, nor in
  a channel whose topic lacks the keyword.
\<close>

theorem thread_only_when_eligible:
  "(thread_requests (fst (handleMessages topicKeyword env msg)) \<noteq> [] \<longrightarrow>
      message_type msg = DEFAULT
      \<and> user_bot (message_author msg) \<noteq> Some True
      \<and> (\<exists>c topic a b.
            env_channels_get env (message_guild_id msg) (Some (message_channel_id msg)) = Inr c
            \<and> channel_type c = GUILD_TEXT
            \<and> channel_topic c = Some topic
            \<and> topic = a @ topicKeyword @ b))
   \<and> (user_bot (message_author msg) = Some True \<longrightarrow>
        thread_requests (fst (handleMessages topicKeyword env msg)) = [])
   \<and> (\<forall>c. env_channels_get env (message_guild_id msg) (Some (message_channel_id msg)) = Inr c
          \<and> (\<forall>topic a b. channel_topic c = Some topic \<longrightarrow> topic \<noteq> a @ topicKeyword @ b)
        \<longrightarrow> thread_requests (fst (handleMessages topicKeyword env msg)) = [])"
proof -
  let ?t = "thread_requests (fst (handleMessages topicKeyword env msg))"
  have only: "message_type msg = DEFAULT
      \<and> user_bot (message_author msg) \<noteq> Some True
      \<and> (\<exists>c topic a b.
            env_channels_get env (message_guild_id msg) (Some (message_channel_id msg)) = Inr c
            \<and> channel_type c = GUILD_TEXT
            \<and> channel_topic c = Some topic
            \<and> topic = a @ topicKeyword @ b)" if created: "?t \<noteq> []"
  proof (cases "snd (eligibility topicKeyword env msg)")
    case (Inl x)
    with created show ?thesis
      by (simp add: thread_requests_handleMessages pipeline_ineligible)
  next
    case (Inr mc)
    then obtain m c where "snd (eligibility topicKeyword env msg) = Inr (m, c)"
      by (cases mc) simp
    then show ?thesis
      unfolding eligibility_Inr includes_str_iff by blast
  qed
  then have "user_bot (message_author msg) = Some True \<Longrightarrow> ?t = []"
    by blast
  moreover have "?t = []"
    if "env_channels_get env (message_guild_id msg) (Some (message_channel_id msg)) = Inr c"
      and "\<forall>topic a b. channel_topic c = Some topic \<longrightarrow> topic \<noteq> a @ topicKeyword @ b" for c
    using only that by fastforce
  ultimately show ?thesis using only by blast
qed

theorem thread_only_when_eligible_witness:
  "thread_requests (fst (handleMessages ''[threads]'' (example_env (\<lambda>n. Inl (Fail OpenAIError)))
      example_message)) \<noteq> []
   \<and> message_type example_message = DEFAULT
   \<and> user_bot (message_author example_message) \<noteq> Some True
   \<and> user_bot (message_author example_bot_message) = Some True
   \<and> thread_requests (fst (handleMessages ''[threads]'' (example_env (\<lambda>n. Inl (Fail OpenAIError)))
        example_bot_message)) = []"
proof -
  let ?env = "example_env (\<lambda>n. Inl (Fail OpenAIError))"
  have created: "thread_requests (fst (handleMessages ''[threads]'' ?env example_message)) \<noteq> []"
    by (simp add: program_defs example_defs numeral_2_eq_2)
  have bot: "user_bot (message_author example_bot_message) = Some True"
    by (simp add: example_defs)
  from created thread_only_when_eligible [of "''[threads]''" ?env example_message]
  have "message_type example_message = DEFAULT
        \<and> user_bot (message_author example_message) \<noteq> Some True"
    by blast
  moreover from bot thread_only_when_eligible [of "''[threads]''" ?env example_bot_message]
  have "thread_requests (fst (handleMessages ''[threads]'' ?env example_bot_message)) = []"
    by blast
  ultimately show ?thesis using created bot by blast
qed

subsection \<open>Classification\<close>

text \<open>
  Claim C2. For an eligible message whose classifier call fails for good, after the retries
  or at once, the classification is the fallback: the title is the display name followed
  by \<open>'s thread\<close>, the display name being the member's nickname when there is one and
  the author's username otherwise, and both flags are false. The thread is still
  requested, under that title, and no hint is posted.
\<close>

theorem fallback_on_classifier_failure:
  assumes eligible: "snd (eligibility topicKeyword env msg) = Inr (m, c)"
    and fails: "snd (retry retryPolicy (\<lambda>err. tag err = ''OpenAIError'')
                  (\<lambda>n. openai_fn env n (message_content msg))
                  (\<lambda>n. env_openai_ms env n (message_content msg))) = Inl (Fail e)"
  shows "snd (classify env msg) =
           Inr \<lparr>short_title =
                  (case Option.bind (message_member msg) member_nick of
                     Some nick \<Rightarrow> nick
                   | None \<Rightarrow> user_username (message_author msg)) @ '''s thread'',
                has_code_examples = False,
                has_code_fences = False\<rparr>
         \<and> thread_requests (fst (handleMessages topicKeyword env msg)) =
             [StartThreadFromMessage (channel_id c) (message_id msg)
                \<lparr>name = truncate
                          ((case Option.bind (message_member msg) member_nick of
                              Some nick \<Rightarrow> nick
                            | None \<Rightarrow> user_username (message_author msg)) @ '''s thread'') 100,
                 auto_archive_duration = 1440\<rparr>]
         \<and> (\<forall>thread. CreateMessage thread codeFenceHint
                \<notin> set (fst (handleMessages topicKeyword env msg)))"
proof -
  have info: "snd (classify env msg) = Inr (fallback msg)"
    using fails by (rule classify_fallback)
  have fb: "fallback msg =
           \<lparr>short_title =
                  (case Option.bind (message_member msg) member_nick of
                     Some nick \<Rightarrow> nick
                   | None \<Rightarrow> user_username (message_author msg)) @ '''s thread'',
                has_code_examples = False,
                has_code_fences = False\<rparr>"
    by (simp add: fallback_def displayName_def)
  have threads: "thread_requests (fst (handleMessages topicKeyword env msg)) =
      [StartThreadFromMessage (channel_id c) (message_id msg)
         \<lparr>name = truncate (short_title (fallback msg)) 100, auto_archive_duration = 1440\<rparr>]"
    by (simp add: thread_requests_handleMessages pipeline_eligible [OF eligible info])
  have posts: "message_requests (fst (handleMessages topicKeyword env msg)) =
      message_requests (posting env msg c (fallback msg))"
    by (simp add: message_requests_handleMessages pipeline_eligible [OF eligible info])
  have "CreateMessage thread codeFenceHint \<notin> set (fst (handleMessages topicKeyword env msg))"
    for thread
  proof
    assume "CreateMessage thread codeFenceHint \<in> set (fst (handleMessages topicKeyword env msg))"
    then have "CreateMessage thread codeFenceHint
        \<in> set (message_requests (fst (handleMessages topicKeyword env msg)))"
      by (simp add: message_requests_def)
    then show False
      unfolding posts message_requests_posting
      by (auto simp: fallback_def controls_not_hint split: sum.splits)
  qed
  with info threads show ?thesis
    unfolding fb by simp
qed

theorem fallback_on_classifier_failure_witness:
  "snd (eligibility ''[threads]'' (example_env (\<lambda>n. Inl (Fail OpenAIError))) example_message)
     = Inr (example_message, example_channel)
   \<and> snd (retry retryPolicy (\<lambda>err. tag err = ''OpenAIError'')
            (\<lambda>n. openai_fn (example_env (\<lambda>n. Inl (Fail OpenAIError))) n
                    (message_content example_message))
            (\<lambda>n. env_openai_ms (example_env (\<lambda>n. Inl (Fail OpenAIError))) n
                    (message_content example_message))) = Inl (Fail OpenAIError)
   \<and> snd (classify (example_env (\<lambda>n. Inl (Fail OpenAIError))) example_message) =
       Inr \<lparr>short_title = ''bob's thread'', has_code_examples = False, has_code_fences = False\<rparr>
   \<and> thread_requests (fst (handleMessages ''[threads]''
         (example_env (\<lambda>n. Inl (Fail OpenAIError))) example_message)) =
       [StartThreadFromMessage ''c1'' ''m1''
          \<lparr>name = ''bob's thread'', auto_archive_duration = 1440\<rparr>]"
proof -
  let ?env = "example_env (\<lambda>n. Inl (Fail OpenAIError))"
  have eligible: "snd (eligibility ''[threads]'' ?env example_message)
      = Inr (example_message, example_channel)"
    by (simp add: program_defs example_defs)
  have fails: "snd (retry retryPolicy (\<lambda>err. tag err = ''OpenAIError'')
            (\<lambda>n. openai_fn ?env n (message_content example_message))
            (\<lambda>n. env_openai_ms ?env n (message_content example_message))) = Inl (Fail OpenAIError)"
    by (simp add: program_defs example_defs numeral_2_eq_2)
  show ?thesis
    using fallback_on_classifier_failure [OF eligible fails] eligible fails
    by (simp add: example_defs truncate_def)
qed

text \<open>
  Claim C3, as stated, has every retry follow the previous attempt by 500 ms. The schedule
  is \<open>Schedule.fixed\<close>: when each call of the classifier takes 300 ms and fails with
  \<open>OpenAIError\<close>, the first retry comes 500 ms after the first failure and the second one
  only 200 ms after the second failure, at the next boundary of the 500 ms interval.
\<close>

theorem second_pause_ends_at_boundary:
  "fst (classify example_env_slow example_message) =
     [OpenAIFn ''how do I pipe?'', Sleep 500, OpenAIFn ''how do I pipe?'', Sleep 200,
      OpenAIFn ''how do I pipe?'', Log Info (Fail OpenAIError)]
   \<and> fst (classify example_env_slow example_message) \<noteq>
     [OpenAIFn ''how do I pipe?'', Sleep 500, OpenAIFn ''how do I pipe?'', Sleep 500,
      OpenAIFn ''how do I pipe?'', Log Info (Fail OpenAIError)]"
  by (simp add: program_defs example_defs tapErrorCause_def orElseSucceed_def numeral_2_eq_2)

text \<open>
  Claim C3, amended. The classifier is called again only after a failure tagged
  \<open>OpenAIError\<close>, and at most twice, on the fixed schedule of 500 ms. The run of the
  classification is, in full: a call; if it failed with that tag, a pause of 500 ms and a
  second call; if that failed with that tag too, a third call, at once when the second
  call took more than 500 ms, and otherwise after a pause that ends at the next multiple
  of 500 ms counted from the first failure; then the log of the final cause, if any. So
  there are at most three calls, fewer pauses than calls, and every pause is of at most
  500 ms. A first failure with any other tag gives the fallback after the one call.
\<close>

theorem classifier_retry_policy:
  "fst (classify env msg) =
     (let c = message_content msg;
          r = (\<lambda>n. env_openai_fn env n c);
          took = env_openai_ms env 1 c;
          outcome = (if retryable (r 0) then (if retryable (r 1) then r 2 else r 1) else r 0)
      in OpenAIFn c #
           (if retryable (r 0)
            then Sleep 500 # OpenAIFn c #
                   (if retryable (r 1)
                    then (if 500 < took then [] else [Sleep (500 - took mod 500)]) @ [OpenAIFn c]
                    else [])
            else [])
         @ (case outcome of Inl cause \<Rightarrow> [Log Info cause] | Inr _ \<Rightarrow> []))
   \<and> length (classifier_calls (fst (classify env msg))) \<le> 3
   \<and> length (pauses (fst (classify env msg)))
       < length (classifier_calls (fst (classify env msg)))
   \<and> (\<forall>d. Sleep d \<in> set (fst (classify env msg)) \<longrightarrow> 0 < d \<and> d \<le> 500)
   \<and> (\<forall>e. env_openai_fn env 0 (message_content msg) = Inl (Fail e) \<and> tag e \<noteq> ''OpenAIError''
          \<longrightarrow> classify env msg =
                ([OpenAIFn (message_content msg), Log Info (Fail e)],
                 Inr \<lparr>short_title = displayName msg @ '''s thread'',
                      has_code_examples = False,
                      has_code_fences = False\<rparr>))"
proof -
  let ?c = "message_content msg"
  let ?r = "\<lambda>n. env_openai_fn env n ?c"
  let ?took = "env_openai_ms env 1 ?c"
  let ?outcome = "if retryable (?r 0) then (if retryable (?r 1) then ?r 2 else ?r 1) else ?r 0"
  let ?attempts = "OpenAIFn ?c #
           (if retryable (?r 0)
            then Sleep 500 # OpenAIFn ?c #
                   (if retryable (?r 1)
                    then (if 500 < ?took then [] else [Sleep (500 - ?took mod 500)]) @ [OpenAIFn ?c]
                    else [])
            else [])"
  let ?logged = "case ?outcome of Inl cause \<Rightarrow> [Log Info cause] | Inr _ \<Rightarrow> []"
  have run: "fst (classify env msg) = ?attempts @ ?logged"
    by (simp add: classify_run Let_def)
  have no_calls: "classifier_calls ?logged = []" and no_pauses: "pauses ?logged = []"
    and no_sleep: "Sleep d \<notin> set ?logged" for d
    by (simp_all add: classifier_calls_def pauses_def split: sum.splits)
  have calls: "classifier_calls (fst (classify env msg)) = classifier_calls ?attempts"
    and waits: "pauses (fst (classify env msg)) = pauses ?attempts"
    using no_calls no_pauses unfolding run by (simp_all add: classifier_calls_def pauses_def)
  have bounded: "length (classifier_calls ?attempts) \<le> 3"
    and fewer: "length (pauses ?attempts) < length (classifier_calls ?attempts)"
    by (simp_all add: classifier_calls_def pauses_def)
  have short: "0 < d \<and> d \<le> 500" if "Sleep d \<in> set (fst (classify env msg))" for d
  proof -
    from that no_sleep have "Sleep d \<in> set ?attempts"
      unfolding run by simp
    then have "d = 500 \<or> d = 500 - ?took mod 500"
      by (auto split: if_splits)
    then show ?thesis
      by auto
  qed
  have other: "classify env msg =
                ([OpenAIFn ?c, Log Info (Fail e)],
                 Inr \<lparr>short_title = displayName msg @ '''s thread'',
                      has_code_examples = False,
                      has_code_fences = False\<rparr>)"
    if "env_openai_fn env 0 ?c = Inl (Fail e)" and "tag e \<noteq> ''OpenAIError''" for e
    using that by (simp add: classify_run Let_def retryable_def fallback_def)
  from bounded fewer short other show ?thesis
    unfolding calls waits using run by (simp add: Let_def)
qed

theorem classifier_retry_policy_witness:
  "fst (classify (example_env (\<lambda>n. Inl (Fail OpenAIError))) example_message) =
     [OpenAIFn ''how do I pipe?'', Sleep 500, OpenAIFn ''how do I pipe?'', Sleep 500,
      OpenAIFn ''how do I pipe?'', Log Info (Fail OpenAIError)]
   \<and> fst (classify example_env_overrun example_message) =
     [OpenAIFn ''how do I pipe?'', Sleep 500, OpenAIFn ''how do I pipe?'',
      OpenAIFn ''how do I pipe?'', Log Info (Fail OpenAIError)]
   \<and> env_openai_fn (example_env (\<lambda>n. Inl (Fail ParseError))) 0 (message_content example_message)
       = Inl (Fail ParseError)
   \<and> tag ParseError \<noteq> ''OpenAIError''
   \<and> classify (example_env (\<lambda>n. Inl (Fail ParseError))) example_message =
       ([OpenAIFn ''how do I pipe?'', Log Info (Fail ParseError)],
        Inr \<lparr>short_title = ''bob's thread'', has_code_examples = False, has_code_fences = False\<rparr>)"
proof -
  have first: "env_openai_fn (example_env (\<lambda>n. Inl (Fail ParseError))) 0
      (message_content example_message) = Inl (Fail ParseError)"
    by (simp add: example_defs)
  have other: "tag ParseError \<noteq> ''OpenAIError''"
    by simp
  show ?thesis
    using classifier_retry_policy [of "example_env (\<lambda>n. Inl (Fail OpenAIError))" example_message]
      classifier_retry_policy [of example_env_overrun example_message]
      classifier_retry_policy [of "example_env (\<lambda>n. Inl (Fail ParseError))" example_message]
      first other
    by (simp add: example_defs retryable_def displayName_def Let_def)
qed

subsection \<open>Thread creation and the hint\<close>

text \<open>
  Claim C4. For an eligible message, the one thread request carries the title of the
  classification cut to its first 100 characters, and an auto-archive duration of 1440
  minutes. The cut leaves a title of at most 100 characters as it is, and a title of
  150 characters keeps exactly its first 100.
\<close>

theorem thread_name_truncated:
  assumes eligible: "snd (eligibility topicKeyword env msg) = Inr (m, c)"
    and info: "snd (classify env msg) = Inr info"
  shows "thread_requests (fst (handleMessages topicKeyword env msg)) =
           [StartThreadFromMessage (channel_id c) (message_id msg)
              \<lparr>name = truncate (short_title info) 100, auto_archive_duration = 1440\<rparr>]
         \<and> length (truncate (short_title info) 100) \<le> 100
         \<and> truncate (short_title info) 100 = take 100 (short_title info)
         \<and> (length (short_title info) \<le> 100 \<longrightarrow>
              truncate (short_title info) 100 = short_title info)
         \<and> (length (short_title info) = 150 \<longrightarrow>
              length (truncate (short_title info) 100) = 100)"
proof -
  have "thread_requests (fst (pipeline topicKeyword env msg)) =
      thread_requests (posting env msg c info)"
    by (simp add: pipeline_eligible [OF eligible info])
  then have "thread_requests (fst (handleMessages topicKeyword env msg)) =
      [StartThreadFromMessage (channel_id c) (message_id msg)
         \<lparr>name = truncate (short_title info) 100, auto_archive_duration = 1440\<rparr>]"
    by (simp add: thread_requests_handleMessages)
  moreover have "truncate (short_title info) 100 = take 100 (short_title info)"
    by (simp add: truncate_def)
  ultimately show ?thesis
    by simp
qed

theorem thread_name_truncated_witness:
  "snd (eligibility ''[threads]'' (example_env (\<lambda>n. Inr example_long_title)) example_message)
     = Inr (example_message, example_channel)
   \<and> snd (classify (example_env (\<lambda>n. Inr example_long_title)) example_message)
     = Inr example_long_title
   \<and> length (short_title example_long_title) = 150
   \<and> thread_requests (fst (handleMessages ''[threads]''
         (example_env (\<lambda>n. Inr example_long_title)) example_message)) =
       [StartThreadFromMessage ''c1'' ''m1''
          \<lparr>name = replicate 100 (CHR ''x''), auto_archive_duration = 1440\<rparr>]"
proof -
  let ?env = "example_env (\<lambda>n. Inr example_long_title)"
  have eligible: "snd (eligibility ''[threads]'' ?env example_message)
      = Inr (example_message, example_channel)"
    by (simp add: program_defs example_defs)
  have info: "snd (classify ?env example_message) = Inr example_long_title"
    by (simp add: classify_run Let_def retryable_def example_defs)
  have long: "length (short_title example_long_title) = 150"
    by (simp add: example_long_title_def)
  show ?thesis
    using thread_name_truncated [OF eligible info] eligible info long
    by (simp add: example_defs example_long_title_def truncate_def)
qed

text \<open>
  Claim C5. For an eligible message classified as having code examples and no code
  fences, once the thread is created and the control message posted, the messages
  posted are the control message and then the hint, both into the new thread, and the
  hint is posted once. The hint has no components and its content is the fixed text: the
  remark that code fences may be missing, an empty line, the advice to wrap the code, an
  empty line, and the example \<open>const a = 123\<close> between two lines made of three
  backslash-escaped backticks, the first one followed by \<open>ts\<close>. For every other pair of
  flags no hint is posted, and no message with that content, whatever the REST client
  answers.
\<close>

theorem hint_iff_missing_code_fences:
  fixes template :: string
  defines "template \<equiv>
      ''It looks like your code examples might be missing code fences.''
      @ [CHR 0x0A, CHR 0x0A]
      @ ''You can wrap your code like this:''
      @ [CHR 0x0A, CHR 0x0A]
      @ [CHR 0x5C, CHR 0x60, CHR 0x5C, CHR 0x60, CHR 0x5C, CHR 0x60] @ ''ts'' @ [CHR 0x0A]
      @ ''const a = 123'' @ [CHR 0x0A]
      @ [CHR 0x5C, CHR 0x60, CHR 0x5C, CHR 0x60, CHR 0x5C, CHR 0x60] @ [CHR 0x0A]"
  assumes eligible: "snd (eligibility topicKeyword env msg) = Inr (m, c)"
    and info: "snd (classify env msg) = Inr info"
  shows "(has_code_examples info \<and> \<not> has_code_fences info \<longrightarrow>
           (\<forall>thread.
              env_startThreadFromMessage env (channel_id c) (message_id msg)
                \<lparr>name = truncate (short_title info) 100, auto_archive_duration = 1440\<rparr> = Inr thread
              \<and> env_createMessage env (channel_id thread) (controls msg) = Inr ()
              \<longrightarrow> message_requests (fst (handleMessages topicKeyword env msg)) =
                     [CreateMessage (channel_id thread) (controls msg),
                      CreateMessage (channel_id thread)
                        \<lparr>payload_content = Some template, payload_components = []\<rparr>]
                  \<and> hint_requests (fst (handleMessages topicKeyword env msg)) =
                     [CreateMessage (channel_id thread)
                        \<lparr>payload_content = Some template, payload_components = []\<rparr>]))
         \<and> (\<not> (has_code_examples info \<and> \<not> has_code_fences info) \<longrightarrow>
              hint_requests (fst (handleMessages topicKeyword env msg)) = []
              \<and> (\<forall>thread payload.
                    CreateMessage thread payload \<in> set (fst (handleMessages topicKeyword env msg))
                    \<longrightarrow> payload_content payload \<noteq> Some template))"
proof -
  have hint: "codeFenceHint = \<lparr>payload_content = Some template, payload_components = []\<rparr>"
    by (simp add: codeFenceHint_def fence_def template_def)
  have posts: "message_requests (fst (handleMessages topicKeyword env msg)) =
      message_requests (posting env msg c info)"
    by (simp add: message_requests_handleMessages pipeline_eligible [OF eligible info])
  have hints: "hint_requests (fst (handleMessages topicKeyword env msg)) =
      hint_requests (message_requests (posting env msg c info))"
    using posts hint_requests_message_requests by metis
  have posted: "CreateMessage thread payload \<in> set (message_requests (posting env msg c info))"
    if "CreateMessage thread payload \<in> set (fst (handleMessages topicKeyword env msg))"
    for thread payload
    using that unfolding posts [symmetric] by (simp add: message_requests_def)
  have first: "message_requests (fst (handleMessages topicKeyword env msg)) =
           [CreateMessage (channel_id thread) (controls msg), CreateMessage (channel_id thread) codeFenceHint]
         \<and> hint_requests (fst (handleMessages topicKeyword env msg)) =
           [CreateMessage (channel_id thread) codeFenceHint]"
    if "has_code_examples info \<and> \<not> has_code_fences info"
      and "env_startThreadFromMessage env (channel_id c) (message_id msg)
             \<lparr>name = truncate (short_title info) 100, auto_archive_duration = 1440\<rparr> = Inr thread"
      and "env_createMessage env (channel_id thread) (controls msg) = Inr ()" for thread
    using that unfolding hints posts message_requests_posting
    by (simp add: hint_requests_def controls_not_hint)
  have none: "hint_requests (fst (handleMessages topicKeyword env msg)) = []"
    if "\<not> (has_code_examples info \<and> \<not> has_code_fences info)"
    using that unfolding hints message_requests_posting
    by (auto simp: hint_requests_def controls_not_hint split: sum.splits)
  have other: "payload_content payload \<noteq> Some template"
    if "\<not> (has_code_examples info \<and> \<not> has_code_fences info)"
      and "CreateMessage thread payload \<in> set (fst (handleMessages topicKeyword env msg))"
    for thread payload
  proof -
    have "payload = controls msg"
      using posted [OF that(2)] that(1) unfolding message_requests_posting
      by (auto split: sum.splits if_splits)
    then show ?thesis
      by (simp add: controls_def)
  qed
  from first none other show ?thesis
    unfolding hint by blast
qed

theorem hint_iff_missing_code_fences_witness:
  "snd (eligibility ''[threads]'' (example_env (\<lambda>n. Inr example_info)) example_message)
     = Inr (example_message, example_channel)
   \<and> snd (classify (example_env (\<lambda>n. Inr example_info)) example_message) = Inr example_info
   \<and> has_code_examples example_info \<and> \<not> has_code_fences example_info
   \<and> message_requests (fst (handleMessages ''[threads]''
         (example_env (\<lambda>n. Inr example_info)) example_message)) =
       [CreateMessage ''t1'' (controls example_message),
        CreateMessage ''t1''
          \<lparr>payload_content = Some
             (''It looks like your code examples might be missing code fences.''
              @ [CHR 0x0A, CHR 0x0A]
              @ ''You can wrap your code like this:''
              @ [CHR 0x0A, CHR 0x0A]
              @ [CHR 0x5C, CHR 0x60, CHR 0x5C, CHR 0x60, CHR 0x5C, CHR 0x60] @ ''ts'' @ [CHR 0x0A]
              @ ''const a = 123'' @ [CHR 0x0A]
              @ [CHR 0x5C, CHR 0x60, CHR 0x5C, CHR 0x60, CHR 0x5C, CHR 0x60] @ [CHR 0x0A]),
           payload_components = []\<rparr>]
   \<and> \<not> (has_code_examples example_long_title \<and> \<not> has_code_fences example_long_title)
   \<and> hint_requests (fst (handleMessages ''[threads]''
         (example_env (\<lambda>n. Inr example_long_title)) example_message)) = []"
proof -
  let ?env = "example_env (\<lambda>n. Inr example_info)"
  let ?env' = "example_env (\<lambda>n. Inr example_long_title)"
  have eligible: "snd (eligibility ''[threads]'' ?env example_message)
      = Inr (example_message, example_channel)"
    by (simp add: program_defs example_defs)
  have info: "snd (classify ?env example_message) = Inr example_info"
    by (simp add: classify_run Let_def retryable_def example_defs)
  have missing: "has_code_examples example_info \<and> \<not> has_code_fences example_info"
    by (simp add: example_info_def)
  have started: "env_startThreadFromMessage ?env (channel_id example_channel)
      (message_id example_message)
      \<lparr>name = truncate (short_title example_info) 100, auto_archive_duration = 1440\<rparr>
      = Inr example_thread"
    by (simp add: example_defs)
  have posted: "env_createMessage ?env (channel_id example_thread) (controls example_message)
      = Inr ()"
    by (simp add: example_defs)
  have eligible': "snd (eligibility ''[threads]'' ?env' example_message)
      = Inr (example_message, example_channel)"
    by (simp add: program_defs example_defs)
  have info': "snd (classify ?env' example_message) = Inr example_long_title"
    by (simp add: classify_run Let_def retryable_def example_defs)
  have fine: "\<not> (has_code_examples example_long_title \<and> \<not> has_code_fences example_long_title)"
    by (simp add: example_long_title_def)
  note yes = hint_iff_missing_code_fences [OF eligible info, THEN conjunct1, rule_format,
      OF missing, of example_thread, OF conjI, OF started posted, THEN conjunct1]
  note no = hint_iff_missing_code_fences [OF eligible' info', THEN conjunct2, rule_format,
      OF fine, THEN conjunct1]
  show ?thesis
    using yes no eligible info missing fine by (simp add: example_thread_def)
qed

subsection \<open>Isolation of failures\<close>

text \<open>
  Claim C8. The handler of a message never fails: whatever cause ends the pipeline, a
  failure or a defect, the handler logs it as its last event and returns normally. So the
  subscription, which would end with a failing handler, runs the handler on every event
  of a sequence, and its events are those of each message in turn.
\<close>

theorem failures_are_isolated:
  "snd (handleMessages topicKeyword env msg) = Inr ()
   \<and> (\<forall>cause. snd (pipeline topicKeyword env msg) = Inl cause \<longrightarrow>
        (\<exists>level. fst (handleMessages topicKeyword env msg) =
                   fst (pipeline topicKeyword env msg) @ [Log level cause]))
   \<and> handleDispatch (\<lambda>(env, msg). handleMessages topicKeyword env msg) events =
       (concat (map (\<lambda>(env, msg). fst (handleMessages topicKeyword env msg)) events), Inr ())"
proof -
  have "\<exists>level. fst (handleMessages topicKeyword env msg) =
                   fst (pipeline topicKeyword env msg) @ [Log level cause]"
    if "snd (pipeline topicKeyword env msg) = Inl cause" for cause
    using that by (cases cause) (simp_all add: handleMessages_trace)
  moreover have "handleDispatch (\<lambda>(env, msg). handleMessages topicKeyword env msg) events =
       (concat (map (\<lambda>ev. fst ((\<lambda>(env, msg). handleMessages topicKeyword env msg) ev)) events), Inr ())"
    by (rule handleDispatch_run) (simp add: handleMessages_result split: prod.splits)
  moreover have "(\<lambda>ev. fst ((\<lambda>(env, msg). handleMessages topicKeyword env msg) ev))
      = (\<lambda>(env, msg). fst (handleMessages topicKeyword env msg))"
    by (simp add: fun_eq_iff split: prod.splits)
  ultimately show ?thesis
    by (simp add: handleMessages_result)
qed

theorem failures_are_isolated_witness:
  "snd (pipeline ''[threads]'' example_env_rest_down example_message)
     = Inl (Fail (OtherError ''DiscordRESTError''))
   \<and> snd (handleMessages ''[threads]'' example_env_rest_down example_message) = Inr ()
   \<and> last (fst (handleMessages ''[threads]'' example_env_rest_down example_message))
       = Log Error (Fail (OtherError ''DiscordRESTError''))
   \<and> handleDispatch (\<lambda>(env, msg). handleMessages ''[threads]'' env msg)
        [(example_env_rest_down, example_message), (example_env_down, example_message)] =
       (fst (handleMessages ''[threads]'' example_env_rest_down example_message)
        @ fst (handleMessages ''[threads]'' example_env_down example_message), Inr ())"
proof -
  have failed: "snd (pipeline ''[threads]'' example_env_rest_down example_message)
     = Inl (Fail (OtherError ''DiscordRESTError''))"
    by (simp add: program_defs example_defs example_env_rest_down_def numeral_2_eq_2)
  have level: "last (fst (handleMessages ''[threads]'' example_env_rest_down example_message))
       = Log Error (Fail (OtherError ''DiscordRESTError''))"
    by (simp add: handleMessages_trace failed)
  show ?thesis
    using failures_are_isolated [of "''[threads]''" example_env_rest_down example_message
        "[(example_env_rest_down, example_message), (example_env_down, example_message)]"]
      failed level
    by simp
qed

subsection \<open>Authorization of interactions\<close>

lemma split_on_no_sep: "c \<notin> set xs \<Longrightarrow> split_on c xs = [xs]"
  by (induction xs) auto

lemma split_on_sep: "c \<notin> set xs \<Longrightarrow> split_on c (xs @ c # ys) = xs # split_on c ys"
  by (induction xs) auto

lemma split_on_nonempty: "split_on c xs \<noteq> []"
  by (induction xs) (auto split: list.splits)

lemma split_on_segment:
  assumes "c \<notin> set pre" and "c \<notin> set seg" and "rest = [] \<or> (\<exists>r. rest = c # r)"
  shows "index_opt (split_on c (pre @ c # seg @ rest)) 1 = Some seg"
proof -
  have "\<exists>ss. split_on c (seg @ rest) = seg # ss"
  proof (cases rest)
    case Nil
    with assms(2) show ?thesis by (simp add: split_on_no_sep)
  next
    case (Cons x r)
    with assms(3) have "rest = c # r" by simp
    with assms(2) show ?thesis by (simp add: split_on_sep)
  qed
  then obtain ss where "split_on c (seg @ rest) = seg # ss" by blast
  with assms(1) show ?thesis
    by (simp add: split_on_sep index_opt_def)
qed

lemma and_exp_eq_exp_iff_bit: "and (p::nat) (2 ^ n) = 2 ^ n \<longleftrightarrow> bit p n"
proof
  assume "and p (2 ^ n) = 2 ^ n"
  then have "bit (and p (2 ^ n)) n = bit ((2::nat) ^ n) n"
    by simp
  then show "bit p n"
    by (simp add: bit_and_iff bit_exp_iff)
next
  assume "bit p n"
  then show "and p (2 ^ n) = 2 ^ n"
    by (intro bit_eqI) (auto simp: bit_and_iff bit_exp_iff)
qed

lemma hasManage_iff_bit: "hasManage permissions \<longleftrightarrow> bit permissions 4"
  unfolding hasManage_def has_def MANAGE_CHANNELS_def
  by (rule and_exp_eq_exp_iff_bit)

lemma withEditPermissions_denied:
  assumes "ix_member i = Some mem" and "member_permissions mem = Some permissions"
    and "index_opt (split_on (CHR ''_'') (ix_custom_id i)) 1 \<noteq> map_option user_id (member_user mem)"
    and "\<not> hasManage permissions"
  shows "withEditPermissions i self = ([], Inl (Fail (PermissionsError ''edit'' ''thread'')))"
  using assms by (simp add: withEditPermissions_def Let_def fail_def)

lemma withEditPermissions_author:
  assumes "index_opt (split_on (CHR ''_'') (ix_custom_id i)) 1
             = map_option user_id (Option.bind (ix_member i) member_user)"
  shows "withEditPermissions i self = self"
  using assms by (simp add: withEditPermissions_def Let_def)

lemma withEditPermissions_manage:
  assumes "ix_member i = Some mem" and "member_permissions mem = Some permissions"
    and "hasManage permissions"
  shows "withEditPermissions i self = self"
  using assms by (simp add: withEditPermissions_def Let_def)

lemma component_dispatch:
  assumes "ix_type i = MESSAGE_COMPONENT"
    and "startsWith (ix_custom_id i) ''edit_'' \<or> startsWith (ix_custom_id i) ''archive_''"
  shows "dispatch env i = archive env i \<or> dispatch env i = edit env i"
  using assms by (auto simp: dispatch_def)

lemma ix_denied:
  assumes "dispatch env i = ([], Inl (Fail (PermissionsError a s)))"
  shows "ix env i =
     ([], Inr (Some (CHANNEL_MESSAGE_WITH_SOURCE EPHEMERAL
                       (''You don't have permission to '' @ a @ '' this '' @ s @ ''.''))))"
  using assms
  by (simp add: ix_def catchAllCause_def catchTag_def map_eff_def flatMap_def succeed_def
      permissionDenied_def)

lemma substring_after_first_sep:
  "c \<notin> set pre \<Longrightarrow> substring_after_first c (pre @ c # xs) = xs"
  by (induction pre) (auto simp: substring_after_first_def)

lemma withEditPermissions_rule:
  assumes custom_id: "ix_custom_id i = pre @ ''_'' @ authorId @ rest"
    and pre: "CHR ''_'' \<notin> set pre"
    and authorId: "CHR ''_'' \<notin> set authorId"
    and rest: "rest = [] \<or> (\<exists>r. rest = CHR ''_'' # r)"
    and member: "ix_member i = Some mem"
    and permissions: "member_permissions mem = Some permissions"
  shows "withEditPermissions i self =
           (if map_option user_id (member_user mem) = Some authorId \<or> bit permissions 4
            then self
            else ([], Inl (Fail (PermissionsError ''edit'' ''thread''))))"
proof -
  have parsed: "index_opt (split_on (CHR ''_'') (ix_custom_id i)) 1 = Some authorId"
    using split_on_segment [OF pre authorId rest] by (simp add: custom_id)
  show ?thesis
    using parsed member permissions
    by (cases "member_user mem")
       (auto simp: withEditPermissions_def Let_def fail_def hasManage_iff_bit)
qed

text \<open>
  Claim C6. The custom ids of the two buttons are \<open>edit_\<close> and \<open>archive_\<close> followed by
  the id of the author of the message, a Discord user id, which contains no underscore.
  On such a custom id the author id that the code parses is everything after the first
  underscore. For an interaction of a member with a permission set, the guarded effect
  runs exactly when the user's id is that author id or bit 4, \<open>MANAGE_CHANNELS\<close>, is set in
  the permissions; otherwise the interaction fails with a \<open>PermissionsError\<close> and nothing
  is run. A user whose id matches is let through whatever the permissions are, even when
  they are missing.
\<close>

theorem edit_permission_rule:
  assumes custom_id: "ix_custom_id i = pre @ ''_'' @ authorId"
    and entry: "pre = ''edit'' \<or> pre = ''archive''"
    and authorId: "CHR ''_'' \<notin> set authorId"
    and member: "ix_member i = Some mem"
    and permissions: "member_permissions mem = Some permissions"
  shows "index_opt (split_on (CHR ''_'') (ix_custom_id i)) 1
           = Some (substring_after_first (CHR ''_'') (ix_custom_id i))
         \<and> substring_after_first (CHR ''_'') (ix_custom_id i) = authorId
         \<and> withEditPermissions i self =
             (if map_option user_id (member_user mem)
                   = Some (substring_after_first (CHR ''_'') (ix_custom_id i))
                 \<or> bit permissions 4
              then self
              else ([], Inl (Fail (PermissionsError ''edit'' ''thread''))))
         \<and> (map_option user_id (member_user mem)
               = Some (substring_after_first (CHR ''_'') (ix_custom_id i)) \<longrightarrow>
              (\<forall>bits. withEditPermissions
                        (i\<lparr>ix_member := Some (mem\<lparr>member_permissions := bits\<rparr>)\<rparr>) self = self))"
proof -
  from entry have pre: "CHR ''_'' \<notin> set pre"
    by auto
  have shape: "ix_custom_id i = pre @ ''_'' @ authorId @ []"
    by (simp add: custom_id)
  have parsed: "index_opt (split_on (CHR ''_'') (ix_custom_id i)) 1 = Some authorId"
    using split_on_segment [OF pre authorId, of "[]"] by (simp add: custom_id)
  have after: "substring_after_first (CHR ''_'') (ix_custom_id i) = authorId"
    using substring_after_first_sep [OF pre, of authorId] by (simp add: custom_id)
  have "withEditPermissions (i\<lparr>ix_member := Some (mem\<lparr>member_permissions := bits\<rparr>)\<rparr>) self = self"
    if "map_option user_id (member_user mem) = Some authorId" for bits
    using parsed that by (intro withEditPermissions_author) auto
  moreover have "withEditPermissions i self =
           (if map_option user_id (member_user mem) = Some authorId \<or> bit permissions 4
            then self
            else ([], Inl (Fail (PermissionsError ''edit'' ''thread''))))"
    using shape pre authorId member permissions
    by (intro withEditPermissions_rule [where rest = "[]"]) simp_all
  ultimately show ?thesis
    unfolding after using parsed by blast
qed

theorem edit_permission_rule_witness:
  "ix_custom_id (example_click ''archive_42'' example_member) = ''archive'' @ ''_'' @ ''42''
   \<and> CHR ''_'' \<notin> set ''42''
   \<and> ix_member (example_click ''archive_42'' example_member) = Some example_member
   \<and> member_permissions example_member = Some 0
   \<and> substring_after_first (CHR ''_'') (ix_custom_id (example_click ''archive_42'' example_member))
       = ''42''
   \<and> withEditPermissions (example_click ''archive_42'' example_member)
        (succeed DEFERRED_UPDATE_MESSAGE) = succeed DEFERRED_UPDATE_MESSAGE
   \<and> withEditPermissions (example_click ''archive_42'' example_stranger)
        (succeed DEFERRED_UPDATE_MESSAGE) = ([], Inl (Fail (PermissionsError ''edit'' ''thread'')))
   \<and> withEditPermissions (example_click ''archive_42'' example_moderator)
        (succeed DEFERRED_UPDATE_MESSAGE) = succeed DEFERRED_UPDATE_MESSAGE"
proof -
  let ?self = "succeed DEFERRED_UPDATE_MESSAGE :: response effect"
  have custom_id: "ix_custom_id (example_click ''archive_42'' mem) = ''archive'' @ ''_'' @ ''42''"
    for mem by (simp add: example_click_def)
  have entry: "''archive'' = ''edit'' \<or> ''archive'' = ''archive''"
    by simp
  have authorId: "CHR ''_'' \<notin> set ''42''"
    by simp
  have member: "ix_member (example_click ''archive_42'' mem) = Some mem" for mem
    by (simp add: example_click_def)
  have author: "member_permissions example_member = Some 0"
    and stranger: "member_permissions example_stranger = Some 0"
    and moderator: "member_permissions example_moderator = Some 16"
    by (simp_all add: example_defs)
  show ?thesis
    using edit_permission_rule [OF custom_id entry authorId member author, of ?self]
      edit_permission_rule [OF custom_id entry authorId member stranger, of ?self]
      edit_permission_rule [OF custom_id entry authorId member moderator, of ?self]
      custom_id [of example_member] member [of example_member] author
    by (simp add: example_defs bit_0)
qed

subsection \<open>The answer to a denied interaction\<close>

text \<open>
  Claim C7, as stated, expects the denial on the archive entry point to read
  \<open>archive this thread\<close>. The one authorization helper raises its error with the action
  \<open>edit\<close> for both entry points, so the denied archive is answered with
  \<open>edit this thread\<close>.
\<close>

theorem archive_denial_says_edit:
  "ix_type (example_click ''archive_42'' example_stranger) = MESSAGE_COMPONENT
   \<and> startsWith (ix_custom_id (example_click ''archive_42'' example_stranger)) ''archive_''
   \<and> ix example_env_down (example_click ''archive_42'' example_stranger) =
       ([], Inr (Some (CHANNEL_MESSAGE_WITH_SOURCE EPHEMERAL
                         ''You don't have permission to edit this thread.'')))
   \<and> ix example_env_down (example_click ''archive_42'' example_stranger) \<noteq>
       ([], Inr (Some (CHANNEL_MESSAGE_WITH_SOURCE EPHEMERAL
                         ''You don't have permission to archive this thread.'')))"
  by (simp add: interaction_defs example_defs program_defs)

text \<open>
  Claim C7, amended. A denied component interaction, on the title-edit entry point as on
  the archive entry point, is answered with an ephemeral message whose content is exactly
  \<open>You don't have permission to edit this thread.\<close>, and nothing else happens.
\<close>

theorem denial_response:
  assumes component: "ix_type i = MESSAGE_COMPONENT"
    and entry: "startsWith (ix_custom_id i) ''edit_'' \<or> startsWith (ix_custom_id i) ''archive_''"
    and member: "ix_member i = Some mem"
    and permissions: "member_permissions mem = Some permissions"
    and stranger: "index_opt (split_on (CHR ''_'') (ix_custom_id i)) 1
                     \<noteq> map_option user_id (member_user mem)"
    and unprivileged: "\<not> bit permissions 4"
  shows "ix env i =
           ([], Inr (Some (CHANNEL_MESSAGE_WITH_SOURCE EPHEMERAL
                             ''You don't have permission to edit this thread.'')))"
proof -
  have denied: "withEditPermissions i self = ([], Inl (Fail (PermissionsError ''edit'' ''thread'')))"
    for self :: "response effect"
    using member permissions stranger unprivileged
    by (intro withEditPermissions_denied) (simp_all add: hasManage_iff_bit)
  have "dispatch env i = ([], Inl (Fail (PermissionsError ''edit'' ''thread'')))"
    using component_dispatch [OF component entry, of env] denied
    by (auto simp: archive_def edit_def)
  then show ?thesis
    by (simp add: ix_denied)
qed

theorem denial_response_witness:
  "ix_type (example_click ''edit_42'' example_stranger) = MESSAGE_COMPONENT
   \<and> startsWith (ix_custom_id (example_click ''edit_42'' example_stranger)) ''edit_''
   \<and> startsWith (ix_custom_id (example_click ''archive_42'' example_stranger)) ''archive_''
   \<and> ix_member (example_click ''edit_42'' example_stranger) = Some example_stranger
   \<and> member_permissions example_stranger = Some 0
   \<and> \<not> bit (0::nat) 4
   \<and> ix example_env_down (example_click ''edit_42'' example_stranger) =
       ([], Inr (Some (CHANNEL_MESSAGE_WITH_SOURCE EPHEMERAL
                         ''You don't have permission to edit this thread.'')))
   \<and> ix example_env_down (example_click ''archive_42'' example_stranger) =
       ([], Inr (Some (CHANNEL_MESSAGE_WITH_SOURCE EPHEMERAL
                         ''You don't have permission to edit this thread.'')))"
proof -
  have component: "ix_type (example_click custom_id example_stranger) = MESSAGE_COMPONENT"
    for custom_id by (simp add: example_click_def)
  have edit_entry: "startsWith (ix_custom_id (example_click ''edit_42'' example_stranger)) ''edit_''
      \<or> startsWith (ix_custom_id (example_click ''edit_42'' example_stranger)) ''archive_''"
    and archive_entry:
      "startsWith (ix_custom_id (example_click ''archive_42'' example_stranger)) ''edit_''
      \<or> startsWith (ix_custom_id (example_click ''archive_42'' example_stranger)) ''archive_''"
    by (simp_all add: example_click_def startsWith_def)
  have member: "ix_member (example_click custom_id example_stranger) = Some example_stranger"
    for custom_id by (simp add: example_click_def)
  have permissions: "member_permissions example_stranger = Some 0"
    by (simp add: example_stranger_def)
  have edit_stranger:
    "index_opt (split_on (CHR ''_'') (ix_custom_id (example_click ''edit_42'' example_stranger))) 1
       \<noteq> map_option user_id (member_user example_stranger)"
    and archive_stranger:
    "index_opt (split_on (CHR ''_'') (ix_custom_id (example_click ''archive_42'' example_stranger))) 1
       \<noteq> map_option user_id (member_user example_stranger)"
    by (simp_all add: example_click_def example_stranger_def index_opt_def)
  have unprivileged: "\<not> bit (0::nat) 4"
    by simp
  show ?thesis
    using denial_response [OF component edit_entry member permissions edit_stranger unprivileged]
      denial_response [OF component archive_entry member permissions archive_stranger unprivileged]
      component member permissions
    by (simp add: example_click_def startsWith_def)
qed

subsection \<open>Submitting the title\<close>

text \<open>
  Claim C9. A modal submission with id \<open>edit\<close> is handled by \<open>editSubmit\<close>, which issues
  one rename request for the interaction's channel with the submitted title as it is, the
  empty title included, and then answers with a deferred update if the request succeeded.
  Who submits plays no role: the handler does not look at the member.
\<close>

theorem edit_submit_renames:
  assumes title: "ix_modal_values i ''title'' = Some title"
  shows "editSubmit env i =
           ([ModifyChannel (ix_channel_id i) (Rename title)],
            case env_modifyChannel env (ix_channel_id i) (Rename title) of
              Inl cause \<Rightarrow> Inl cause
            | Inr _ \<Rightarrow> Inr DEFERRED_UPDATE_MESSAGE)
         \<and> (\<forall>anyone. editSubmit env (i\<lparr>ix_member := anyone\<rparr>) = editSubmit env i)
         \<and> (ix_type i = MODAL_SUBMIT \<and> ix_custom_id i = ''edit'' \<longrightarrow>
              dispatch env i = editSubmit env i)"
  using title
  by (auto simp: editSubmit_def modalValue_def modifyChannel_def dispatch_def startsWith_def
      as_eff_def map_eff_def tap_def flatMap_def succeed_def split: sum.splits)

theorem edit_submit_renames_witness:
  "ix_modal_values (example_submit '''') ''title'' = Some ''''
   \<and> editSubmit example_env_down (example_submit '''') =
       ([ModifyChannel (Some ''t1'') (Rename '''')], Inr DEFERRED_UPDATE_MESSAGE)
   \<and> ix_type (example_submit '''') = MODAL_SUBMIT \<and> ix_custom_id (example_submit '''') = ''edit''
   \<and> dispatch example_env_down (example_submit '''') = editSubmit example_env_down (example_submit '''')"
proof -
  have title: "ix_modal_values (example_submit '''') ''title'' = Some ''''"
    by (simp add: example_submit_def)
  have entry: "ix_type (example_submit '''') = MODAL_SUBMIT \<and> ix_custom_id (example_submit '''') = ''edit''"
    by (simp add: example_submit_def)
  show ?thesis
    using edit_submit_renames [OF title, of example_env_down] title entry
    by (simp add: example_defs)
qed

subsection \<open>Denial has no effects\<close>

text \<open>
  Claim C10. When authorization is denied, the guarded effect is not run, whatever it is:
  the denied archive and the denied edit issue no event at all, so neither a channel
  modification nor a channel lookup, and they fail with the \<open>PermissionsError\<close> instead
  of producing a response of their own. The answer of the registry to such an interaction
  is issued without any event either.
\<close>

theorem denied_runs_nothing:
  assumes member: "ix_member i = Some mem"
    and permissions: "member_permissions mem = Some permissions"
    and stranger: "index_opt (split_on (CHR ''_'') (ix_custom_id i)) 1
                     \<noteq> map_option user_id (member_user mem)"
    and unprivileged: "\<not> bit permissions 4"
  shows "withEditPermissions i self = ([], Inl (Fail (PermissionsError ''edit'' ''thread'')))
         \<and> archive env i = ([], Inl (Fail (PermissionsError ''edit'' ''thread'')))
         \<and> edit env i = ([], Inl (Fail (PermissionsError ''edit'' ''thread'')))
         \<and> (ix_type i = MESSAGE_COMPONENT
              \<and> (startsWith (ix_custom_id i) ''edit_'' \<or> startsWith (ix_custom_id i) ''archive_'')
            \<longrightarrow> fst (ix env i) = [])"
proof -
  from unprivileged have "\<not> hasManage permissions"
    by (simp add: hasManage_iff_bit)
  note denied = withEditPermissions_denied [OF member permissions stranger this]
  have handlers: "archive env i = ([], Inl (Fail (PermissionsError ''edit'' ''thread'')))"
    "edit env i = ([], Inl (Fail (PermissionsError ''edit'' ''thread'')))"
    by (simp_all add: archive_def edit_def denied)
  have "fst (ix env i) = []"
    if "ix_type i = MESSAGE_COMPONENT"
      and "startsWith (ix_custom_id i) ''edit_'' \<or> startsWith (ix_custom_id i) ''archive_''"
  proof -
    have "dispatch env i = ([], Inl (Fail (PermissionsError ''edit'' ''thread'')))"
      using component_dispatch [OF that, of env] handlers by auto
    then show ?thesis
      by (simp add: ix_denied)
  qed
  with denied handlers show ?thesis
    by simp
qed

theorem denied_runs_nothing_witness:
  "ix_member (example_click ''archive_42'' example_stranger) = Some example_stranger
   \<and> member_permissions example_stranger = Some 0
   \<and> \<not> bit (0::nat) 4
   \<and> archive example_env_down (example_click ''archive_42'' example_stranger) =
       ([], Inl (Fail (PermissionsError ''edit'' ''thread'')))
   \<and> edit example_env_down (example_click ''archive_42'' example_stranger) =
       ([], Inl (Fail (PermissionsError ''edit'' ''thread'')))
   \<and> archive example_env_down (example_click ''archive_42'' example_member) =
       ([ModifyChannel (Some ''t1'') Archive], Inr DEFERRED_UPDATE_MESSAGE)"
proof -
  have member: "ix_member (example_click ''archive_42'' example_stranger) = Some example_stranger"
    by (simp add: example_click_def)
  have permissions: "member_permissions example_stranger = Some 0"
    by (simp add: example_stranger_def)
  have stranger:
    "index_opt (split_on (CHR ''_'') (ix_custom_id (example_click ''archive_42'' example_stranger))) 1
       \<noteq> map_option user_id (member_user example_stranger)"
    by (simp add: example_click_def example_stranger_def index_opt_def)
  have unprivileged: "\<not> bit (0::nat) 4"
    by simp
  have allowed: "archive example_env_down (example_click ''archive_42'' example_member) =
       ([ModifyChannel (Some ''t1'') Archive], Inr DEFERRED_UPDATE_MESSAGE)"
    by (simp add: interaction_defs example_defs program_defs)
  show ?thesis
    using denied_runs_nothing [OF member permissions stranger unprivileged,
        of "succeed DEFERRED_UPDATE_MESSAGE :: response effect" example_env_down]
      member permissions unprivileged allowed
    by simp
qed

end
